theory Spec2Isabelle
  imports Main
begin

section \<open>The CTA Bus Tracker client of \<^verbatim>\<open>main.py\<close>\<close>

text \<open>
  \<^verbatim>\<open>main.py\<close> has four functions. Each sends one HTTP GET request, decodes the body
  (JSON for \<^verbatim>\<open>get_bus_routes\<close> and \<^verbatim>\<open>get_bus_vehicles\<close>, XML through
  \<^verbatim>\<open>xmltodict\<close> for \<^verbatim>\<open>get_bus_routes_with_key\<close> and \<^verbatim>\<open>get_bus_stops_with_key\<close>),
  and returns a pandas DataFrame, the decoded body, or \<^verbatim>\<open>None\<close>.

  The network, the two decoders and the pandas release are the functions' environment:
  they are arguments of the model. Exceptions are values (\<open>exn + 'a\<close>, \<open>Inl\<close> raises),
  \<^verbatim>\<open>print\<close> appends to a log that is returned with the result.
\<close>

subsection \<open>Python values\<close>

text \<open>
  What \<^verbatim>\<open>xmltodict.parse\<close> builds: \<^verbatim>\<open>None\<close> for an empty element, a \<^verbatim>\<open>str\<close> for
  text, a \<^verbatim>\<open>dict\<close> (keys in document order) for an element with children, a
  \<^verbatim>\<open>list\<close> for repeated siblings. A Python \<^verbatim>\<open>str\<close> is a \<open>string\<close> here, so the
  model covers the code points below 256.
\<close>

datatype xval = XNone | XStr string | XDict "(string \<times> xval) list" | XList "xval list"

text \<open>What \<^verbatim>\<open>response.json()\<close> builds. A float is kept as mantissa and binary exponent;
  no function of the program looks inside a number.\<close>

datatype json = JNull | JBool bool | JInt int | JFloat int int | JStr string
  | JArr "json list" | JObj "(string \<times> json) list"

datatype exn = ConnectionError | HTTPError | RequestsJSONDecodeError
  | ExpatError | KeyError | TypeError | AttributeError | ValueError

text \<open>\<^verbatim>\<open>except requests.exceptions.RequestException\<close>: the classes of \<^verbatim>\<open>requests\<close>.
  Every \<open>exn\<close> is an \<^verbatim>\<open>Exception\<close>, so \<^verbatim>\<open>except Exception\<close> catches them all.\<close>

fun is_RequestException :: "exn \<Rightarrow> bool" where
  "is_RequestException ConnectionError = True"
| "is_RequestException HTTPError = True"
| "is_RequestException RequestsJSONDecodeError = True"
| "is_RequestException _ = False"

text \<open>\<^verbatim>\<open>p in s\<close> for two strings: \<open>p\<close> occurs in \<open>s\<close> as a contiguous piece.\<close>

fun is_substring :: "string \<Rightarrow> string \<Rightarrow> bool" where
  "is_substring p [] = (p = [])"
| "is_substring p (c # cs) = (take (length p) (c # cs) = p \<or> is_substring p cs)"

text \<open>\<^verbatim>\<open>k in v\<close> with a string \<open>k\<close>: key membership for a dict, substring test for a
  str, element equality for a list, \<^verbatim>\<open>TypeError\<close> for \<^verbatim>\<open>None\<close>.\<close>

fun py_in :: "string \<Rightarrow> xval \<Rightarrow> exn + bool" where
  "py_in k (XDict d) = Inr (k \<in> set (map fst d))"
| "py_in k (XStr s) = Inr (is_substring k s)"
| "py_in k (XList xs) = Inr (XStr k \<in> set xs)"
| "py_in k XNone = Inl TypeError"

text \<open>\<^verbatim>\<open>v.get(k, default)\<close>: only a dict has the method.\<close>

fun py_get :: "xval \<Rightarrow> string \<Rightarrow> xval \<Rightarrow> exn + xval" where
  "py_get (XDict d) k dflt = Inr (case map_of d k of Some x \<Rightarrow> x | None \<Rightarrow> dflt)"
| "py_get _ k dflt = Inl AttributeError"

text \<open>\<^verbatim>\<open>v[k]\<close> with a string \<open>k\<close>: \<^verbatim>\<open>KeyError\<close> for a dict without the key,
  \<^verbatim>\<open>TypeError\<close> for a str, a list and \<^verbatim>\<open>None\<close>.\<close>

fun py_index :: "xval \<Rightarrow> string \<Rightarrow> exn + xval" where
  "py_index (XDict d) k = (case map_of d k of Some x \<Rightarrow> Inr x | None \<Rightarrow> Inl KeyError)"
| "py_index _ k = Inl TypeError"

fun json_index :: "json \<Rightarrow> string \<Rightarrow> exn + json" where
  "json_index (JObj d) k = (case map_of d k of Some x \<Rightarrow> Inr x | None \<Rightarrow> Inl KeyError)"
| "json_index _ k = Inl TypeError"

fun isinstance_dict :: "xval \<Rightarrow> bool" where
  "isinstance_dict (XDict d) = True"
| "isinstance_dict _ = False"

text \<open>The keys of a dict in insertion order; no keys for the other values, which the
  table constructor below never asks for.\<close>

fun keys :: "xval \<Rightarrow> string list" where
  "keys (XDict d) = map fst d"
| "keys _ = []"

subsection \<open>\<^verbatim>\<open>str.strip\<close>\<close>

text \<open>The whitespace of \<^verbatim>\<open>str.isspace\<close> below code point 256: tab to carriage return,
  the four separators 28 to 31, space, NEL (133) and the no-break space (160).\<close>

definition is_space :: "char \<Rightarrow> bool" where
  "is_space c = ((of_char c :: nat) \<in> {9, 10, 11, 12, 13, 28, 29, 30, 31, 32, 133, 160})"

definition py_strip :: "string \<Rightarrow> string" where
  "py_strip s = rev (dropWhile is_space (rev (dropWhile is_space s)))"

text \<open>A string with no whitespace at either end.\<close>

definition trimmed :: "string \<Rightarrow> bool" where
  "trimmed s = (s = [] \<or> (\<not> is_space (hd s) \<and> \<not> is_space (last s)))"

subsection \<open>pandas\<close>

text \<open>
  A cell of an object column: a Python value, or the float \<^verbatim>\<open>NaN\<close> that pandas puts where
  a record has no value for the column.
\<close>

datatype 'v cell = NaN | Obj 'v

text \<open>
  A DataFrame with string column labels is kept by column: the labels, the cells of each
  column in row order, and the length of the row index. \<open>RangeFrame\<close> is a frame whose
  column index is a \<^verbatim>\<open>RangeIndex\<close> (integer labels); the program only ever asks such a
  frame for \<^verbatim>\<open>.columns.str\<close>, which raises, so its cells are not kept.
\<close>

datatype 'v dataframe = Frame "string list" "'v cell list list" nat | RangeFrame

text \<open>
  Since pandas 2.0 an empty DataFrame has \<^verbatim>\<open>RangeIndex\<close> axes; before, its column index
  was an empty \<^verbatim>\<open>Index\<close> of dtype object. The model follows the releases 1.x and 2.x.
  Release 3.0 infers a str dtype for a column of strings, where a \<^verbatim>\<open>None\<close> beside a string
  becomes \<^verbatim>\<open>NaN\<close>, and raises other classes of exception for a list that mixes dicts with
  other values; string cells and the value returned are the same there.
\<close>

datatype pandas_version = Before_2_0 | From_2_0

text \<open>\<^verbatim>\<open>lib.fast_unique_multiple_list_gen(gen, sort=False)\<close>: the keys of all records, each
  once, in order of first appearance.\<close>

fun fast_unique :: "'a list \<Rightarrow> 'a list \<Rightarrow> 'a list" where
  "fast_unique uniques [] = uniques"
| "fast_unique uniques (v # vs) =
     (if v \<in> set uniques then fast_unique uniques vs else fast_unique (uniques @ [v]) vs)"

text \<open>\<^verbatim>\<open>lib.dicts_to_array\<close>: the cell of record \<open>d\<close> in column \<open>k\<close>.\<close>

fun cell_of :: "string \<Rightarrow> xval \<Rightarrow> xval cell" where
  "cell_of k (XDict d) = (case map_of d k of Some v \<Rightarrow> Obj v | None \<Rightarrow> NaN)"
| "cell_of k _ = NaN"

text \<open>
  \<^verbatim>\<open>lib.maybe_convert_objects\<close> on one column of parser values: a column that holds a str,
  a dict or a list stays as it is, and so does a column of \<^verbatim>\<open>None\<close> only; a column of
  \<^verbatim>\<open>None\<close> and \<^verbatim>\<open>NaN\<close> becomes a float column of \<^verbatim>\<open>NaN\<close>.
\<close>

definition floats_column :: "xval cell list \<Rightarrow> bool" where
  "floats_column cs = (NaN \<in> set cs \<and> list_all (\<lambda>c. c = NaN \<or> c = Obj XNone) cs)"

definition maybe_convert_objects :: "xval cell list \<Rightarrow> xval cell list" where
  "maybe_convert_objects cs = (if floats_column cs then map (\<lambda>c. NaN) cs else cs)"

text \<open>
  \<^verbatim>\<open>pd.DataFrame(data)\<close> for a list \<open>data\<close> of parser values.
  \<^item> The empty list gives the empty frame of the release.
  \<^item> A list that starts with a dict is read as records: a later element that is not a
    dict has no \<^verbatim>\<open>keys\<close> (\<^verbatim>\<open>AttributeError\<close>). The columns are the keys in order of first
    appearance, the row index is \<^verbatim>\<open>RangeIndex(len(data))\<close>.
  \<^item> A list that starts with a str or \<^verbatim>\<open>None\<close> gives one integer-labelled column.
  \<^item> A list that starts with a list gives integer-labelled columns, one row per element;
    \<^verbatim>\<open>None\<close> has no length (\<^verbatim>\<open>TypeError\<close>).
\<close>

definition pd_DataFrame :: "pandas_version \<Rightarrow> xval list \<Rightarrow> exn + xval dataframe" where
  "pd_DataFrame ver data =
     (case data of
        [] \<Rightarrow> Inr (case ver of Before_2_0 \<Rightarrow> Frame [] [] 0 | From_2_0 \<Rightarrow> RangeFrame)
      | XDict d # rest \<Rightarrow>
          (if list_all isinstance_dict data
           then (let columns = fast_unique [] (concat (map keys data))
                 in Inr (Frame columns
                          (map (\<lambda>k. maybe_convert_objects (map (cell_of k) data)) columns)
                          (length data)))
           else Inl AttributeError)
      | XList xs # rest \<Rightarrow> (if XNone \<in> set data then Inl TypeError else Inr RangeFrame)
      | _ \<Rightarrow> Inr RangeFrame)"

text \<open>\<^verbatim>\<open>df.columns = df.columns.str.strip()\<close>: the \<^verbatim>\<open>.str\<close> accessor of an integer index
  raises \<^verbatim>\<open>AttributeError\<close>; on string labels every label is stripped, in place.\<close>

fun strip_columns :: "'v dataframe \<Rightarrow> exn + 'v dataframe" where
  "strip_columns (Frame columns cols n) = Inr (Frame (map py_strip columns) cols n)"
| "strip_columns RangeFrame = Inl AttributeError"

subsection \<open>Requests and responses\<close>

text \<open>A query parameter is a string or \<^verbatim>\<open>None\<close> (\<^verbatim>\<open>os.getenv\<close> of an unset variable).\<close>

record request =
  url :: string
  params :: "(string \<times> string option) list"

text \<open>The network answers a request with a status code and a body, or not at all.\<close>

datatype http = Unreachable | Response nat string

definition requests_get :: "(request \<Rightarrow> http) \<Rightarrow> request \<Rightarrow> exn + nat \<times> string" where
  "requests_get net rq =
     (case net rq of Unreachable \<Rightarrow> Inl ConnectionError | Response status body \<Rightarrow> Inr (status, body))"

definition raise_for_status :: "nat \<Rightarrow> exn + unit" where
  "raise_for_status status = (if 400 \<le> status \<and> status < 600 then Inl HTTPError else Inr ())"

text \<open>What a function hands back: \<^verbatim>\<open>None\<close>, a DataFrame, or the decoded JSON body.\<close>

datatype result = RNone | RXmlFrame "xval dataframe" | RJsonFrame "json dataframe" | RBody json

datatype outcome = Returned result | Raised exn

text \<open>One constructor per \<^verbatim>\<open>print\<close> of the source, with the value it formats.\<close>

datatype logline = Error_fetching_routes exn | Error_fetching_vehicle_data exn
  | Error_fetching_stops exn | API_Error xval | Error_processing_response exn

subsection \<open>The two XML functions\<close>

text \<open>
  Lines 86 to 107 of \<^verbatim>\<open>get_bus_routes_with_key\<close> and lines 141 to 162 of
  \<^verbatim>\<open>get_bus_stops_with_key\<close> are the same code up to the record key (\<^verbatim>\<open>route\<close>,
  \<^verbatim>\<open>stop\<close>): \<open>normalize\<close> is that code, from the parsed document \<open>xml_dict\<close> on. It
  gives the lines printed and the value returned, or the exception raised inside the
  \<^verbatim>\<open>try\<close>.
\<close>

definition wrap_list :: "xval \<Rightarrow> xval list" where
  "wrap_list v = (case v of XList xs \<Rightarrow> xs | _ \<Rightarrow> [v])"

definition normalize :: "pandas_version \<Rightarrow> string \<Rightarrow> xval \<Rightarrow> exn + logline list \<times> result" where
  "normalize ver record_key xml_dict =
     (case py_get xml_dict ''bustime-response'' (XDict []) of Inl e \<Rightarrow> Inl e | Inr envelope \<Rightarrow>
      case py_in ''error'' envelope of Inl e \<Rightarrow> Inl e | Inr has_error \<Rightarrow>
      if has_error then
        (case py_index xml_dict ''bustime-response'' of Inl e \<Rightarrow> Inl e | Inr b \<Rightarrow>
         case py_index b ''error'' of Inl e \<Rightarrow> Inl e | Inr err \<Rightarrow>
         case py_index err ''msg'' of Inl e \<Rightarrow> Inl e | Inr msg \<Rightarrow>
         Inr ([API_Error msg], RNone))
      else
        (case py_get envelope record_key (XList []) of Inl e \<Rightarrow> Inl e | Inr routes \<Rightarrow>
         case pd_DataFrame ver (wrap_list routes) of Inl e \<Rightarrow> Inl e | Inr df \<Rightarrow>
         case strip_columns df of Inl e \<Rightarrow> Inl e | Inr df' \<Rightarrow>
         Inr ([], RXmlFrame df')))"

text \<open>The \<^verbatim>\<open>try\<close> block of an XML function: request, status check, parse, \<open>normalize\<close>.\<close>

definition xml_try ::
  "pandas_version \<Rightarrow> (string \<Rightarrow> exn + xval) \<Rightarrow> (request \<Rightarrow> http) \<Rightarrow> request \<Rightarrow> string
    \<Rightarrow> exn + logline list \<times> result" where
  "xml_try ver xmltodict_parse net rq record_key =
     (case requests_get net rq of Inl e \<Rightarrow> Inl e | Inr (status, body) \<Rightarrow>
      case raise_for_status status of Inl e \<Rightarrow> Inl e | Inr u \<Rightarrow>
      case xmltodict_parse body of Inl e \<Rightarrow> Inl e | Inr xml_dict \<Rightarrow>
      normalize ver record_key xml_dict)"

definition routes_with_key_request :: "string option \<Rightarrow> request" where
  "routes_with_key_request api_key =
     \<lparr>url = ''https://www.ctabustracker.com/bustime/api/v3/getroutes'',
      params = [(''key'', api_key)]\<rparr>"

definition get_bus_routes_with_key ::
  "pandas_version \<Rightarrow> (string \<Rightarrow> exn + xval) \<Rightarrow> (request \<Rightarrow> http) \<Rightarrow> string option
    \<Rightarrow> logline list \<times> outcome" where
  "get_bus_routes_with_key ver xmltodict_parse net api_key =
     (case xml_try ver xmltodict_parse net (routes_with_key_request api_key) ''route'' of
        Inr (out, r) \<Rightarrow> (out, Returned r)
      | Inl e \<Rightarrow>
          if is_RequestException e then ([Error_fetching_routes e], Returned RNone)
          else ([Error_processing_response e], Returned RNone))"

definition stops_request :: "string option \<Rightarrow> string option \<Rightarrow> string option \<Rightarrow> request" where
  "stops_request api_key route direction =
     \<lparr>url = ''https://www.ctabustracker.com/bustime/api/v3/getstops'',
      params = [(''key'', api_key), (''rt'', route), (''dir'', direction)]\<rparr>"

definition get_bus_stops_with_key ::
  "pandas_version \<Rightarrow> (string \<Rightarrow> exn + xval) \<Rightarrow> (request \<Rightarrow> http) \<Rightarrow> string option
    \<Rightarrow> string option \<Rightarrow> string option \<Rightarrow> logline list \<times> outcome" where
  "get_bus_stops_with_key ver xmltodict_parse net api_key route direction =
     (case xml_try ver xmltodict_parse net (stops_request api_key route direction) ''stop'' of
        Inr (out, r) \<Rightarrow> (out, Returned r)
      | Inl e \<Rightarrow>
          if is_RequestException e then ([Error_fetching_stops e], Returned RNone)
          else ([Error_processing_response e], Returned RNone))"

subsection \<open>The two JSON functions\<close>

text \<open>
  \<^verbatim>\<open>get_bus_routes\<close> reads the key from the global \<^verbatim>\<open>API_KEY\<close>, decodes the body with
  \<^verbatim>\<open>response.json()\<close> and builds a DataFrame from
  \<^verbatim>\<open>response["bustime-response"]["routes"]\<close>. The decoder and the DataFrame constructor
  on a decoded JSON value are arguments. Only \<^verbatim>\<open>RequestException\<close> is caught: any other
  exception leaves the function.
\<close>

definition routes_request :: "string option \<Rightarrow> request" where
  "routes_request API_KEY =
     \<lparr>url = ''https://www.ctabustracker.com/bustime/api/v3/getroutes'',
      params = [(''key'', API_KEY), (''format'', Some ''json'')]\<rparr>"

definition get_bus_routes ::
  "(json \<Rightarrow> exn + json dataframe) \<Rightarrow> (string \<Rightarrow> exn + json) \<Rightarrow> (request \<Rightarrow> http)
    \<Rightarrow> string option \<Rightarrow> logline list \<times> outcome" where
  "get_bus_routes pd_DataFrame_json response_json net API_KEY =
     (case (case requests_get net (routes_request API_KEY) of Inl e \<Rightarrow> Inl e
            | Inr (status, body) \<Rightarrow>
              (case raise_for_status status of Inl e \<Rightarrow> Inl e | Inr u \<Rightarrow>
              (case response_json body of Inl e \<Rightarrow> Inl e | Inr response \<Rightarrow>
              (case json_index response ''bustime-response'' of Inl e \<Rightarrow> Inl e | Inr b \<Rightarrow>
              (case json_index b ''routes'' of Inl e \<Rightarrow> Inl e | Inr routes \<Rightarrow>
              (case pd_DataFrame_json routes of Inl e \<Rightarrow> Inl e
               | Inr df \<Rightarrow> Inr (RJsonFrame df))))))) of
        Inr r \<Rightarrow> ([], Returned r)
      | Inl e \<Rightarrow>
          if is_RequestException e then ([Error_fetching_routes e], Returned RNone)
          else ([], Raised e))"

text \<open>
  The vehicle IDs are a list of integers or strings, or one string. \<^verbatim>\<open>str\<close> of an
  integer is its decimal numeral, of a string the string.
\<close>

datatype vid = IntId int | StrId string

datatype vehicle_ids = IdList "vid list" | IdString string

fun str_nat :: "nat \<Rightarrow> string" where
  "str_nat n =
     (if n < 10 then [char_of (48 + n)] else str_nat (n div 10) @ [char_of (48 + n mod 10)])"

declare str_nat.simps [simp del]

fun py_str :: "vid \<Rightarrow> string" where
  "py_str (IntId i) = (if i < 0 then CHR ''-'' # str_nat (nat (- i)) else str_nat (nat i))"
| "py_str (StrId s) = s"

fun join :: "string \<Rightarrow> string list \<Rightarrow> string" where
  "join sep [] = []"
| "join sep [x] = x"
| "join sep (x # y # ys) = x @ sep @ join sep (y # ys)"

definition vid_param :: "vehicle_ids \<Rightarrow> string" where
  "vid_param vehicle_ids =
     (case vehicle_ids of IdList vids \<Rightarrow> join '','' (map py_str vids) | IdString s \<Rightarrow> s)"

definition vehicles_request :: "string option \<Rightarrow> vehicle_ids \<Rightarrow> request" where
  "vehicles_request API_KEY vehicle_ids =
     \<lparr>url = ''https://www.ctabustracker.com/bustime/api/v3/getvehicles'',
      params = [(''key'', API_KEY), (''vid'', Some (vid_param vehicle_ids)),
                (''tmres'', Some ''s''), (''format'', Some ''json'')]\<rparr>"

definition get_bus_vehicles ::
  "(string \<Rightarrow> exn + json) \<Rightarrow> (request \<Rightarrow> http) \<Rightarrow> string option \<Rightarrow> vehicle_ids
    \<Rightarrow> logline list \<times> outcome" where
  "get_bus_vehicles response_json net API_KEY vehicle_ids =
     (case (case requests_get net (vehicles_request API_KEY vehicle_ids) of Inl e \<Rightarrow> Inl e
            | Inr (status, body) \<Rightarrow>
              (case raise_for_status status of Inl e \<Rightarrow> Inl e | Inr u \<Rightarrow>
              (case response_json body of Inl e \<Rightarrow> Inl e | Inr response \<Rightarrow>
               Inr (RBody response)))) of
        Inr r \<Rightarrow> ([], Returned r)
      | Inl e \<Rightarrow>
          if is_RequestException e then ([Error_fetching_vehicle_data e], Returned RNone)
          else ([], Raised e))"

subsection \<open>Reading a table\<close>

text \<open>
  The documents the claims speak of: the root element \<^verbatim>\<open>bustime-response\<close> with the
  envelope \<open>env\<close> as its content.
\<close>

definition doc :: "(string \<times> xval) list \<Rightarrow> xval" where
  "doc env = XDict [(''bustime-response'', XDict env)]"

text \<open>The records of a parsed document under a record key: none when the document, the
  envelope or the key is missing or the envelope is no dict, the listed ones for a
  list, the value itself otherwise.\<close>

definition envelope_records :: "string \<Rightarrow> xval \<Rightarrow> xval list" where
  "envelope_records record_key xml_dict =
     (case xml_dict of
        XDict root \<Rightarrow>
          (case map_of root ''bustime-response'' of
             None \<Rightarrow> []
           | Some (XDict env) \<Rightarrow>
               (case map_of env record_key of None \<Rightarrow> [] | Some v \<Rightarrow> wrap_list v)
           | Some _ \<Rightarrow> [])
      | _ \<Rightarrow> [])"

text \<open>Row \<open>i\<close> of a table read back as a record: each label with the cell of its column,
  the \<^verbatim>\<open>NaN\<close> cells left out.\<close>

definition row :: "string list \<Rightarrow> 'v cell list list \<Rightarrow> nat \<Rightarrow> (string \<times> 'v) list" where
  "row columns cols i =
     concat (map (\<lambda>(k, col). case col ! i of Obj v \<Rightarrow> [(k, v)] | NaN \<Rightarrow> []) (zip columns cols))"

text \<open>A record as the data model has it: a dict from distinct, trimmed field names to
  strings.\<close>

fun isinstance_str :: "xval \<Rightarrow> bool" where
  "isinstance_str (XStr s) = True"
| "isinstance_str _ = False"

fun well_formed :: "xval \<Rightarrow> bool" where
  "well_formed (XDict d) =
     (distinct (map fst d) \<and> list_all trimmed (map fst d) \<and> list_all isinstance_str (map snd d))"
| "well_formed _ = False"

text \<open>\<^verbatim>\<open>d.items()\<close>.\<close>

fun items :: "xval \<Rightarrow> (string \<times> xval) list" where
  "items (XDict d) = d"
| "items _ = []"

text \<open>A returned value that is a DataFrame.\<close>

fun is_table :: "result \<Rightarrow> bool" where
  "is_table (RXmlFrame df) = True"
| "is_table (RJsonFrame df) = True"
| "is_table _ = False"

subsection \<open>Reading a decimal numeral\<close>






section \<open>Properties\<close>

subsection \<open>Column names\<close>

lemma set_fast_unique: "set (fast_unique u xs) = set u \<union> set xs"
  by (induction u xs rule: fast_unique.induct) auto

lemma distinct_fast_unique: "distinct u \<Longrightarrow> distinct (fast_unique u xs)"
  by (induction u xs rule: fast_unique.induct) auto

lemma fast_unique_distinct_id: "distinct (u @ xs) \<Longrightarrow> fast_unique u xs = u @ xs"
  by (induction u xs rule: fast_unique.induct) auto

text \<open>What is left after dropping whitespace from the end is a prefix.\<close>

lemma dropWhile_rev_prefix: "\<exists>zs. ys = rev (dropWhile P (rev ys)) @ zs"
proof -
  have "rev ys = takeWhile P (rev ys) @ dropWhile P (rev ys)" by simp
  then have "ys = rev (dropWhile P (rev ys)) @ rev (takeWhile P (rev ys))"
    by (metis rev_append rev_rev_ident)
  then show ?thesis by blast
qed

lemma trimmed_py_strip: "trimmed (py_strip s)"
proof (cases "py_strip s = []")
  case True
  then show ?thesis by (simp add: trimmed_def)
next
  case False
  let ?ys = "dropWhile is_space s"
  let ?r = "dropWhile is_space (rev ?ys)"
  from False have r: "?r \<noteq> []" by (simp add: py_strip_def)
  then have "\<not> is_space (hd ?r)" by (rule hd_dropWhile)
  then have l: "\<not> is_space (last (py_strip s))"
    using r by (simp add: py_strip_def last_rev)
  obtain zs where zs: "?ys = py_strip s @ zs"
    using dropWhile_rev_prefix [of ?ys is_space] by (auto simp: py_strip_def)
  with False have ys: "?ys \<noteq> []" by auto
  then have "\<not> is_space (hd ?ys)" by (rule hd_dropWhile)
  moreover have "hd ?ys = hd (py_strip s)" using zs False by (metis hd_append2)
  ultimately show ?thesis using l by (simp add: trimmed_def)
qed

lemma py_strip_trimmed: "trimmed s \<Longrightarrow> py_strip s = s"
proof (cases s)
  case Nil
  then show ?thesis by (simp add: py_strip_def)
next
  case (Cons c cs)
  assume t: "trimmed s"
  with Cons have h: "\<not> is_space c" and l: "\<not> is_space (last s)" by (auto simp: trimmed_def)
  from h Cons have 1: "dropWhile is_space s = s" by simp
  from Cons obtain x xs where r: "rev s = x # xs" by (cases "rev s") auto
  have "hd (rev s) = last s" using Cons by (simp add: hd_rev)
  with r l have "\<not> is_space x" by simp
  with r have "dropWhile is_space (rev s) = rev s" by simp
  with 1 show ?thesis by (simp add: py_strip_def)
qed

subsection \<open>What the constructor and \<open>normalize\<close> build\<close>

lemma maybe_convert_objects_length: "length (maybe_convert_objects cs) = length cs"
  by (simp add: maybe_convert_objects_def)

lemma maybe_convert_objects_single: "maybe_convert_objects [c] = [c]"
  by (cases c) (simp_all add: maybe_convert_objects_def floats_column_def)

lemma pd_DataFrame_Frame:
  assumes "pd_DataFrame ver data = Inr (Frame columns cols n)"
  shows "n = length data \<and> columns = fast_unique [] (concat (map keys data))
    \<and> cols = map (\<lambda>k. maybe_convert_objects (map (cell_of k) data)) columns"
  using assms
  by (auto simp: pd_DataFrame_def Let_def
      split: list.splits xval.splits pandas_version.splits if_splits)

text \<open>A table that \<open>normalize\<close> returns is the stripped frame of the envelope's records,
  and nothing was printed.\<close>

lemma normalize_table:
  assumes "normalize ver record_key xml_dict = Inr (out, RXmlFrame F)"
  shows "out = [] \<and> (\<exists>df. pd_DataFrame ver (envelope_records record_key xml_dict) = Inr df
           \<and> strip_columns df = Inr F)"
  using assms
  by (cases xml_dict)
     (auto simp: normalize_def envelope_records_def wrap_list_def
       split: sum.splits if_splits option.splits xval.splits)

text \<open>On an envelope without the \<^verbatim>\<open>error\<close> key, \<open>normalize\<close> is the constructor on the
  records followed by the stripping of the labels.\<close>

lemma normalize_data:
  assumes "''error'' \<notin> set (map fst env)"
  shows "normalize ver record_key (doc env) =
    (case pd_DataFrame ver (envelope_records record_key (doc env)) of Inl e \<Rightarrow> Inl e
     | Inr df \<Rightarrow> (case strip_columns df of Inl e \<Rightarrow> Inl e | Inr df' \<Rightarrow> Inr ([], RXmlFrame df')))"
  using assms
  by (auto simp: normalize_def doc_def envelope_records_def wrap_list_def
      split: option.splits sum.splits)

lemma envelope_records_doc:
  "envelope_records record_key (doc env) =
     (case map_of env record_key of None \<Rightarrow> [] | Some v \<Rightarrow> wrap_list v)"
  by (simp add: envelope_records_def doc_def)

lemma cell_of_items:
  "distinct (map fst d) \<Longrightarrow>
    map (\<lambda>k. [cell_of k (XDict d)]) (map fst d) = map (\<lambda>(k, v). [Obj v]) d"
  by (auto simp: map_of_eq_Some_iff [THEN iffD2])

subsection \<open>A single record\<close>

text \<open>
  C1. When the record key of an envelope without \<^verbatim>\<open>error\<close> holds one mapping (a dict,
  whose keys are distinct) and not a list, lines 98 and 99 wrap it in a one-element list,
  and the table returned has exactly one row: one cell per field of the record, holding
  the field's value, under the stripped field name.
\<close>

theorem single_record_is_wrapped:
  assumes "''error'' \<notin> set (map fst env)" and "map_of env record_key = Some (XDict d)"
    and "distinct (map fst d)"
  shows "wrap_list (XDict d) = [XDict d] \<and>
    normalize ver record_key (doc env) =
      Inr ([], RXmlFrame (Frame (map (py_strip \<circ> fst) d) (map (\<lambda>(k, v). [Obj v]) d) 1))"
proof -
  have w: "wrap_list (XDict d) = [XDict d]" by (simp add: wrap_list_def)
  have u: "fast_unique [] (map fst d) = map fst d"
    using assms(3) fast_unique_distinct_id [of "[]" "map fst d"] by simp
  have "pd_DataFrame ver [XDict d] =
      Inr (Frame (map fst d) (map (\<lambda>k. [cell_of k (XDict d)]) (map fst d)) 1)"
    by (simp add: pd_DataFrame_def u maybe_convert_objects_single)
  then have "pd_DataFrame ver [XDict d] = Inr (Frame (map fst d) (map (\<lambda>(k, v). [Obj v]) d) 1)"
    using cell_of_items [OF assms(3)] by simp
  then show ?thesis
    using w assms(2) by (simp add: normalize_data [OF assms(1)] envelope_records_doc)
qed

text \<open>The scenario of the specification: the envelope
  \<^verbatim>\<open>{"route": {"rt": "151", "rtnm": "Sheridan"}}\<close>.\<close>

theorem single_record_is_wrapped_witness:
  "normalize From_2_0 ''route''
     (doc [(''route'', XDict [(''rt'', XStr ''151''), (''rtnm'', XStr ''Sheridan'')])]) =
   Inr ([], RXmlFrame (Frame [''rt'', ''rtnm''] [[Obj (XStr ''151'')], [Obj (XStr ''Sheridan'')]] 1))"
proof -
  have 1: "''error'' \<notin>
      set (map fst [(''route'', XDict [(''rt'', XStr ''151''), (''rtnm'', XStr ''Sheridan'')])])"
    by simp
  have 2: "map_of [(''route'', XDict [(''rt'', XStr ''151''), (''rtnm'', XStr ''Sheridan'')])]
      ''route'' = Some (XDict [(''rt'', XStr ''151''), (''rtnm'', XStr ''Sheridan'')])"
    by simp
  have 3: "distinct (map fst [(''rt'', XStr ''151''), (''rtnm'', XStr ''Sheridan'')])" by simp
  have s: "py_strip ''rt'' = ''rt''" "py_strip ''rtnm'' = ''rtnm''" by code_simp+
  from single_record_is_wrapped [OF 1 2 3, of From_2_0] show ?thesis by (simp add: s)
qed

subsection \<open>Field names\<close>

text \<open>
  C4. In every table that \<open>normalize\<close> returns, every column name is free of leading and
  trailing whitespace, and the column names are the field names of the envelope's
  records, each once, in order of first appearance, stripped: as a set they are the
  stripped input names, and there is one column per distinct input name, so no field is
  added and none is dropped.
\<close>

theorem column_names_are_trimmed:
  assumes "normalize ver record_key xml_dict = Inr (out, RXmlFrame (Frame columns cols n))"
  shows "list_all trimmed columns
    \<and> columns =
        map py_strip (fast_unique [] (concat (map keys (envelope_records record_key xml_dict))))
    \<and> set columns = py_strip ` (\<Union>r \<in> set (envelope_records record_key xml_dict). set (keys r))
    \<and> length columns = card (\<Union>r \<in> set (envelope_records record_key xml_dict). set (keys r))"
proof -
  let ?recs = "envelope_records record_key xml_dict"
  let ?names = "fast_unique [] (concat (map keys ?recs))"
  from normalize_table [OF assms] obtain df where
    df: "pd_DataFrame ver ?recs = Inr df" and st: "strip_columns df = Inr (Frame columns cols n)"
    by blast
  from st obtain columns0 where
    df0: "df = Frame columns0 cols n" and c: "columns = map py_strip columns0"
    by (cases df) auto
  from pd_DataFrame_Frame [OF df [unfolded df0]] have c0: "columns0 = ?names" by simp
  have s: "set ?names = (\<Union>r \<in> set ?recs. set (keys r))"
    by (simp add: set_fast_unique)
  have d: "distinct ?names" by (simp add: distinct_fast_unique)
  have "list_all trimmed columns" by (simp add: c list_all_iff trimmed_py_strip)
  moreover have "set columns = py_strip ` (\<Union>r \<in> set ?recs. set (keys r))"
    using s by (simp add: c c0)
  moreover have "length columns = card (\<Union>r \<in> set ?recs. set (keys r))"
    using distinct_card [OF d] s by (simp add: c c0)
  ultimately show ?thesis using c c0 by simp
qed

text \<open>A record whose two field names carry whitespace.\<close>

theorem column_names_are_trimmed_witness:
  "normalize From_2_0 ''route''
     (doc [(''route'', XDict [('' rt'', XStr ''151''), (''rtnm  '', XStr ''Sheridan'')])]) =
     Inr ([], RXmlFrame (Frame [''rt'', ''rtnm''] [[Obj (XStr ''151'')], [Obj (XStr ''Sheridan'')]] 1))
   \<and> list_all trimmed [''rt'', ''rtnm'']
   \<and> length [''rt'', ''rtnm''] = card (\<Union>r \<in> set (envelope_records ''route''
        (doc [(''route'', XDict [('' rt'', XStr ''151''), (''rtnm  '', XStr ''Sheridan'')])])).
          set (keys r))"
proof -
  have h: "normalize From_2_0 ''route''
     (doc [(''route'', XDict [('' rt'', XStr ''151''), (''rtnm  '', XStr ''Sheridan'')])]) =
     Inr ([], RXmlFrame (Frame [''rt'', ''rtnm''] [[Obj (XStr ''151'')], [Obj (XStr ''Sheridan'')]] 1))"
    by code_simp
  from column_names_are_trimmed [OF h] h show ?thesis by blast
qed

subsection \<open>From the functions to \<open>normalize\<close>\<close>

text \<open>With a response whose status is no error and a body that parses, the \<^verbatim>\<open>try\<close> block
  is \<open>normalize\<close> on the parsed document; and a \<^verbatim>\<open>try\<close> block that returns has been
  there.\<close>

lemma xml_try_ok:
  assumes "net rq = Response status body" and "\<not> (400 \<le> status \<and> status < 600)"
    and "xmltodict_parse body = Inr xml_dict"
  shows "xml_try ver xmltodict_parse net rq record_key = normalize ver record_key xml_dict"
  using assms by (auto simp: xml_try_def requests_get_def raise_for_status_def)

lemma xml_try_Inr:
  assumes "xml_try ver xmltodict_parse net rq record_key = Inr res"
  shows "\<exists>status body xml_dict. net rq = Response status body
    \<and> \<not> (400 \<le> status \<and> status < 600) \<and> xmltodict_parse body = Inr xml_dict
    \<and> normalize ver record_key xml_dict = Inr res"
  using assms
  by (auto simp: xml_try_def requests_get_def raise_for_status_def
      split: http.splits sum.splits if_splits)

text \<open>No exception of \<open>normalize\<close> belongs to \<^verbatim>\<open>requests\<close>: the second handler gets them.\<close>

lemma normalize_not_RequestException:
  "normalize ver record_key xml_dict = Inl e \<Longrightarrow> \<not> is_RequestException e"
  by (cases xml_dict)
     (auto simp: normalize_def pd_DataFrame_def Let_def
       split: sum.splits if_splits option.splits xval.splits list.splits pandas_version.splits
         dataframe.splits
       elim!: py_in.elims py_get.elims py_index.elims strip_columns.elims)

lemma strip_columns_Inr:
  "strip_columns df = Inr df' \<Longrightarrow> \<exists>columns cols n. df' = Frame columns cols n \<and> list_all trimmed columns"
  by (cases df) (auto simp: list_all_iff trimmed_py_strip)

lemma normalize_result:
  assumes "normalize ver record_key xml_dict = Inr (out, r)"
  shows "r = RNone \<or> (\<exists>columns cols n. r = RXmlFrame (Frame columns cols n) \<and> list_all trimmed columns)"
  using assms
  by (auto simp: normalize_def split: sum.splits if_splits dest: strip_columns_Inr)

lemma normalize_error:
  assumes "''error'' \<in> set (map fst env)"
  shows "\<exists>err. map_of env ''error'' = Some err \<and>
    normalize ver record_key (doc env) =
      (case py_index err ''msg'' of Inl e \<Rightarrow> Inl e | Inr msg \<Rightarrow> Inr ([API_Error msg], RNone))"
proof -
  from assms obtain err where err: "map_of env ''error'' = Some err"
    by (metis domIff dom_map_of_conv_image_fst not_Some_eq set_map)
  then show ?thesis using assms
    by (auto simp: normalize_def doc_def split: sum.splits)
qed

subsection \<open>Error envelopes\<close>

text \<open>
  C2 as the specification has it, that the result for an envelope with an \<^verbatim>\<open>error\<close> key
  carries the upstream message, fails. Lines 91 and 92 print the message and return
  \<^verbatim>\<open>None\<close>: the value returned is the same for every message. And when the API lists
  two errors, the value under \<^verbatim>\<open>error\<close> is a list, line 91 raises \<^verbatim>\<open>TypeError\<close> on its
  \<^verbatim>\<open>['msg']\<close>, and what is printed is a processing error without either message.
\<close>

theorem error_message_not_in_result:
  "get_bus_stops_with_key From_2_0
      (\<lambda>body. Inr (doc [(''error'', XList [XDict [(''msg'', XStr ''rt parameter missing'')],
                                            XDict [(''msg'', XStr ''dir parameter missing'')]])]))
      (\<lambda>rq. Response 200 ''<bustime-response>...</bustime-response>'') (Some ''key'') None None
     = ([Error_processing_response TypeError], Returned RNone)
   \<and> snd (get_bus_routes_with_key From_2_0
        (\<lambda>body. Inr (doc [(''error'', XDict [(''msg'', XStr ''No API key'')])]))
        (\<lambda>rq. Response 200 ''<bustime-response>...</bustime-response>'') None)
     = Returned RNone
   \<and> snd (get_bus_routes_with_key From_2_0
        (\<lambda>body. Inr (doc [(''error'',
            XDict [(''msg'', XStr ''Invalid API access key supplied'')])]))
        (\<lambda>rq. Response 200 ''<bustime-response>...</bustime-response>'') (Some ''key''))
     = Returned RNone"
  by (simp add: get_bus_stops_with_key_def get_bus_routes_with_key_def xml_try_def
      requests_get_def raise_for_status_def normalize_def doc_def)

text \<open>
  C2, amended. When the parsed envelope has an \<^verbatim>\<open>error\<close> key, both XML functions return
  \<^verbatim>\<open>None\<close>: never a table, and no exception leaves the function, whatever the value under
  \<^verbatim>\<open>error\<close> is. The value returned carries no message; when the value under \<^verbatim>\<open>error\<close> is
  a mapping with a \<^verbatim>\<open>msg\<close> field, the one line printed is \<^verbatim>\<open>API Error:\<close> followed by
  that message.
\<close>

theorem error_envelope_gives_None:
  assumes "\<not> (400 \<le> status \<and> status < 600)" and "xmltodict_parse body = Inr (doc env)"
    and "''error'' \<in> set (map fst env)"
  shows "(net (routes_with_key_request api_key) = Response status body \<longrightarrow>
      (\<exists>out. get_bus_routes_with_key ver xmltodict_parse net api_key = (out, Returned RNone)
         \<and> (\<forall>err msg. map_of env ''error'' = Some (XDict err) \<longrightarrow> map_of err ''msg'' = Some msg
               \<longrightarrow> out = [API_Error msg])))
    \<and> (net (stops_request api_key route direction) = Response status body \<longrightarrow>
      (\<exists>out. get_bus_stops_with_key ver xmltodict_parse net api_key route direction
           = (out, Returned RNone)
         \<and> (\<forall>err msg. map_of env ''error'' = Some (XDict err) \<longrightarrow> map_of err ''msg'' = Some msg
               \<longrightarrow> out = [API_Error msg])))"
proof -
  have n: "\<exists>out. (case normalize ver record_key (doc env) of
        Inr (out, r) \<Rightarrow> (out, Returned r)
      | Inl e \<Rightarrow> if is_RequestException e then ([fetch e], Returned RNone)
                 else ([Error_processing_response e], Returned RNone)) = (out, Returned RNone)
      \<and> (\<forall>err msg. map_of env ''error'' = Some (XDict err) \<longrightarrow> map_of err ''msg'' = Some msg
               \<longrightarrow> out = [API_Error msg])" for record_key fetch
  proof -
    from normalize_error [OF assms(3), of ver record_key] obtain err where
      err: "map_of env ''error'' = Some err" and
      nz: "normalize ver record_key (doc env) =
        (case py_index err ''msg'' of Inl e \<Rightarrow> Inl e | Inr msg \<Rightarrow> Inr ([API_Error msg], RNone))"
      by blast
    show ?thesis
    proof (cases "py_index err ''msg''")
      case (Inl e)
      then have "\<forall>d msg. err = XDict d \<longrightarrow> map_of d ''msg'' \<noteq> Some msg"
        by (auto split: option.splits)
      with Inl nz err show ?thesis by auto
    next
      case (Inr msg)
      then have "\<forall>d m. err = XDict d \<longrightarrow> map_of d ''msg'' = Some m \<longrightarrow> m = msg"
        by (auto split: option.splits)
      with Inr nz err show ?thesis by auto
    qed
  qed
  have t: "xml_try ver xmltodict_parse net rq record_key = normalize ver record_key (doc env)"
    if "net rq = Response status body" for rq record_key
    using that assms(1,2) by (rule xml_try_ok)
  show ?thesis
    using n [where record_key = "''route''" and fetch = Error_fetching_routes]
      n [where record_key = "''stop''" and fetch = Error_fetching_stops]
    by (auto simp: get_bus_routes_with_key_def get_bus_stops_with_key_def t)
qed

text \<open>The scenario of the specification: the envelope \<^verbatim>\<open>{"error": {"msg": "No API key"}}\<close>.\<close>

theorem error_envelope_gives_None_witness:
  "get_bus_routes_with_key From_2_0
      (\<lambda>body. Inr (doc [(''error'', XDict [(''msg'', XStr ''No API key'')])]))
      (\<lambda>rq. Response 200 ''<bustime-response>...</bustime-response>'') None
     = ([API_Error (XStr ''No API key'')], Returned RNone)
   \<and> get_bus_stops_with_key From_2_0
      (\<lambda>body. Inr (doc [(''error'', XDict [(''msg'', XStr ''No API key'')])]))
      (\<lambda>rq. Response 200 ''<bustime-response>...</bustime-response>'') None
      (Some ''151'') (Some ''Northbound'')
     = ([API_Error (XStr ''No API key'')], Returned RNone)"
  using error_envelope_gives_None [where status = 200
      and xmltodict_parse = "\<lambda>body. Inr (doc [(''error'', XDict [(''msg'', XStr ''No API key'')])])"
      and body = "''<bustime-response>...</bustime-response>''"
      and env = "[(''error'', XDict [(''msg'', XStr ''No API key'')])]"
      and net = "\<lambda>rq. Response 200 ''<bustime-response>...</bustime-response>''"
      and ver = From_2_0 and api_key = None
      and route = "Some ''151''" and direction = "Some ''Northbound''"]
  by simp

subsection \<open>No exception leaves an XML function\<close>

text \<open>
  C9. For every release of pandas, every parser, every network and every argument,
  \<^verbatim>\<open>get_bus_routes_with_key\<close> and \<^verbatim>\<open>get_bus_stops_with_key\<close> return, and what they return is
  \<^verbatim>\<open>None\<close> or a table: a failed request, an error status, a body that does not parse and
  an envelope of any shape all end in one of the two handlers.
\<close>

theorem xml_functions_never_raise:
  "(\<exists>out r. get_bus_routes_with_key ver xmltodict_parse net api_key = (out, Returned r)
      \<and> (r = RNone \<or> (\<exists>df. r = RXmlFrame df)))
   \<and> (\<exists>out r. get_bus_stops_with_key ver xmltodict_parse net api_key route direction
        = (out, Returned r)
      \<and> (r = RNone \<or> (\<exists>df. r = RXmlFrame df)))"
proof -
  have h: "\<exists>out r. (case xml_try ver xmltodict_parse net rq record_key of
        Inr (out, r) \<Rightarrow> (out, Returned r)
      | Inl e \<Rightarrow> if is_RequestException e then ([fetch e], Returned RNone)
                 else ([Error_processing_response e], Returned RNone)) = (out, Returned r)
      \<and> (r = RNone \<or> (\<exists>df. r = RXmlFrame df))" for rq record_key fetch
  proof (cases "xml_try ver xmltodict_parse net rq record_key")
    case (Inl e)
    then show ?thesis by simp
  next
    case (Inr res)
    obtain out r where res: "res = (out, r)" by (cases res)
    from xml_try_Inr [OF Inr] res obtain xml_dict where
      "normalize ver record_key xml_dict = Inr (out, r)" by blast
    from normalize_result [OF this] have "r = RNone \<or> (\<exists>df. r = RXmlFrame df)" by blast
    with Inr res show ?thesis by simp
  qed
  show ?thesis
    unfolding get_bus_routes_with_key_def get_bus_stops_with_key_def
    using h [where record_key = "''route''" and fetch = Error_fetching_routes]
      h [where record_key = "''stop''" and fetch = Error_fetching_stops]
    by blast
qed

subsection \<open>An envelope without the record key\<close>

text \<open>
  Line 95 reads the records with the default \<^verbatim>\<open>[]\<close>, and \<^verbatim>\<open>pd.DataFrame([])\<close> is the empty
  frame. Before pandas 2.0 its column index is an empty object index, stripping it does
  nothing and the empty table is returned. From pandas 2.0 on the column index is a
  \<^verbatim>\<open>RangeIndex\<close>, line 105 raises \<^verbatim>\<open>AttributeError\<close> inside the \<^verbatim>\<open>try\<close>, and the function
  reports a processing error and returns \<^verbatim>\<open>None\<close>.
\<close>

lemma absent_record_key:
  assumes "''error'' \<notin> set (map fst env)" and "map_of env record_key = None"
  shows "normalize ver record_key (doc env) =
    (case ver of Before_2_0 \<Rightarrow> Inr ([], RXmlFrame (Frame [] [] 0)) | From_2_0 \<Rightarrow> Inl AttributeError)"
  using assms
  by (simp add: normalize_data envelope_records_doc pd_DataFrame_def split: pandas_version.splits)

text \<open>
  C5. A document with a \<^verbatim>\<open>bustime-response\<close> root, no \<^verbatim>\<open>error\<close> and no \<^verbatim>\<open>route\<close>, under
  pandas 2.0 or later: \<^verbatim>\<open>get_bus_routes_with_key\<close> prints a processing error and returns
  \<^verbatim>\<open>None\<close>, not an empty table.
\<close>

theorem absent_record_key_pandas_2:
  "get_bus_routes_with_key From_2_0 (\<lambda>body. Inr (doc [(''tm'', XStr ''20250101 12:00'')]))
      (\<lambda>rq. Response 200 ''<bustime-response><tm>20250101 12:00</tm></bustime-response>'')
      (Some ''key'')
     = ([Error_processing_response AttributeError], Returned RNone)"
  by (simp add: get_bus_routes_with_key_def xml_try_def requests_get_def raise_for_status_def
      absent_record_key)

subsection \<open>Failures of the JSON functions\<close>

text \<open>A request that fails or is answered with an error status makes each of the four
  functions return \<^verbatim>\<open>None\<close>.\<close>

lemma transport_failure_returns_None:
  assumes "\<And>rq. net rq = Unreachable \<or> (\<exists>status body. net rq = Response status body
      \<and> 400 \<le> status \<and> status < 600)"
  shows "snd (get_bus_routes pd_DataFrame_json response_json net key) = Returned RNone"
    and "snd (get_bus_vehicles response_json net key vehicle_ids) = Returned RNone"
    and "snd (get_bus_routes_with_key ver xmltodict_parse net key) = Returned RNone"
    and "snd (get_bus_stops_with_key ver xmltodict_parse net key route direction) = Returned RNone"
proof -
  show "snd (get_bus_routes pd_DataFrame_json response_json net key) = Returned RNone"
    using assms [of "routes_request key"]
    by (auto simp: get_bus_routes_def requests_get_def raise_for_status_def)
  show "snd (get_bus_vehicles response_json net key vehicle_ids) = Returned RNone"
    using assms [of "vehicles_request key vehicle_ids"]
    by (auto simp: get_bus_vehicles_def requests_get_def raise_for_status_def)
  show "snd (get_bus_routes_with_key ver xmltodict_parse net key) = Returned RNone"
    using assms [of "routes_with_key_request key"]
    by (auto simp: get_bus_routes_with_key_def xml_try_def requests_get_def raise_for_status_def)
  show "snd (get_bus_stops_with_key ver xmltodict_parse net key route direction) = Returned RNone"
    using assms [of "stops_request key route direction"]
    by (auto simp: get_bus_stops_with_key_def xml_try_def requests_get_def raise_for_status_def)
qed

text \<open>
  C6. The Bus Tracker API answers a request without a valid key with status 200 and an
  error envelope. \<^verbatim>\<open>get_bus_routes\<close> then looks up \<^verbatim>\<open>routes\<close> in an envelope that has
  none: the \<^verbatim>\<open>KeyError\<close> is no \<^verbatim>\<open>RequestException\<close>, so it leaves the function.
\<close>

theorem get_bus_routes_error_envelope_raises:
  "get_bus_routes pd_DataFrame_json
      (\<lambda>body. Inr (JObj [(''bustime-response'',
          JObj [(''error'', JArr [JObj [(''msg'', JStr ''No API access key supplied'')]])])]))
      (\<lambda>rq. Response 200 ''{...}'') None
     = ([], Raised KeyError)"
  by (simp add: get_bus_routes_def requests_get_def raise_for_status_def)

subsection \<open>What each function returns\<close>

text \<open>
  C7 as the specification has it, that each function returns a table or \<^verbatim>\<open>None\<close> and
  \<^verbatim>\<open>get_bus_vehicles\<close> never the raw body, fails: \<^verbatim>\<open>get_bus_vehicles\<close> returns
  \<^verbatim>\<open>response.json()\<close> as it is (line 58, and its docstring says so).
\<close>

theorem get_bus_vehicles_returns_raw_body:
  "\<not> (\<exists>out r. get_bus_vehicles
        (\<lambda>body. Inr (JObj [(''bustime-response'',
            JObj [(''vehicle'', JArr [JObj [(''vid'', JStr ''1234''), (''rt'', JStr ''151'')]])])]))
        (\<lambda>rq. Response 200 ''{...}'') (Some ''key'') (IdList [IntId 1234])
      = (out, Returned r) \<and> (r = RNone \<or> is_table r))"
  by (simp add: get_bus_vehicles_def requests_get_def raise_for_status_def)

text \<open>
  C7, amended. The two XML functions always return, a table with stripped column names
  or \<^verbatim>\<open>None\<close>. When \<^verbatim>\<open>get_bus_routes\<close> returns, it returns \<^verbatim>\<open>None\<close> or the DataFrame
  built from \<^verbatim>\<open>response["bustime-response"]["routes"]\<close>. When \<^verbatim>\<open>get_bus_vehicles\<close> returns,
  it returns \<^verbatim>\<open>None\<close> or the decoded body, unchanged and not a table.
\<close>

theorem each_function_returns_its_kind:
  "(\<exists>out r. get_bus_routes_with_key ver xmltodict_parse net api_key = (out, Returned r)
      \<and> (r = RNone \<or> (\<exists>columns cols n. r = RXmlFrame (Frame columns cols n)
            \<and> list_all trimmed columns)))
   \<and> (\<exists>out r. get_bus_stops_with_key ver xmltodict_parse net api_key route direction
        = (out, Returned r)
      \<and> (r = RNone \<or> (\<exists>columns cols n. r = RXmlFrame (Frame columns cols n)
            \<and> list_all trimmed columns)))
   \<and> (\<forall>out r. get_bus_routes pd_DataFrame_json response_json net api_key = (out, Returned r)
        \<longrightarrow> r = RNone \<or> (\<exists>status body response b routes df.
              net (routes_request api_key) = Response status body
            \<and> response_json body = Inr response
            \<and> json_index response ''bustime-response'' = Inr b
            \<and> json_index b ''routes'' = Inr routes
            \<and> pd_DataFrame_json routes = Inr df \<and> r = RJsonFrame df))
   \<and> (\<forall>out r. get_bus_vehicles response_json net api_key vehicle_ids = (out, Returned r)
        \<longrightarrow> r = RNone \<or> (\<exists>status body response.
              net (vehicles_request api_key vehicle_ids) = Response status body
            \<and> response_json body = Inr response \<and> r = RBody response))"
proof -
  have h: "\<exists>out r. (case xml_try ver xmltodict_parse net rq record_key of
        Inr (out, r) \<Rightarrow> (out, Returned r)
      | Inl e \<Rightarrow> if is_RequestException e then ([fetch e], Returned RNone)
                 else ([Error_processing_response e], Returned RNone)) = (out, Returned r)
      \<and> (r = RNone \<or> (\<exists>columns cols n. r = RXmlFrame (Frame columns cols n)
            \<and> list_all trimmed columns))" for rq record_key fetch
  proof (cases "xml_try ver xmltodict_parse net rq record_key")
    case (Inl e)
    then show ?thesis by simp
  next
    case (Inr res)
    obtain out r where res: "res = (out, r)" by (cases res)
    from xml_try_Inr [OF Inr] res obtain xml_dict where
      "normalize ver record_key xml_dict = Inr (out, r)" by blast
    from normalize_result [OF this] Inr res show ?thesis by simp
  qed
  have 1: "\<exists>out r. get_bus_routes_with_key ver xmltodict_parse net api_key = (out, Returned r)
      \<and> (r = RNone \<or> (\<exists>columns cols n. r = RXmlFrame (Frame columns cols n)
            \<and> list_all trimmed columns))"
    unfolding get_bus_routes_with_key_def
    using h [where record_key = "''route''" and fetch = Error_fetching_routes] by blast
  have 2: "\<exists>out r. get_bus_stops_with_key ver xmltodict_parse net api_key route direction
        = (out, Returned r)
      \<and> (r = RNone \<or> (\<exists>columns cols n. r = RXmlFrame (Frame columns cols n)
            \<and> list_all trimmed columns))"
    unfolding get_bus_stops_with_key_def
    using h [where record_key = "''stop''" and fetch = Error_fetching_stops] by blast
  have 3: "\<forall>out r. get_bus_routes pd_DataFrame_json response_json net api_key = (out, Returned r)
        \<longrightarrow> r = RNone \<or> (\<exists>status body response b routes df.
              net (routes_request api_key) = Response status body
            \<and> response_json body = Inr response
            \<and> json_index response ''bustime-response'' = Inr b
            \<and> json_index b ''routes'' = Inr routes
            \<and> pd_DataFrame_json routes = Inr df \<and> r = RJsonFrame df)"
    by (auto simp: get_bus_routes_def requests_get_def raise_for_status_def
        split: http.splits sum.splits if_splits)
  have 4: "\<forall>out r. get_bus_vehicles response_json net api_key vehicle_ids = (out, Returned r)
        \<longrightarrow> r = RNone \<or> (\<exists>status body response.
              net (vehicles_request api_key vehicle_ids) = Response status body
            \<and> response_json body = Inr response \<and> r = RBody response)"
    by (auto simp: get_bus_vehicles_def requests_get_def raise_for_status_def
        split: http.splits sum.splits if_splits)
  from 1 2 3 4 show ?thesis by blast
qed

theorem each_function_returns_its_kind_witness:
  "get_bus_vehicles
      (\<lambda>body. Inr (JObj [(''bustime-response'',
          JObj [(''vehicle'', JArr [JObj [(''vid'', JStr ''1234''), (''rt'', JStr ''151'')]])])]))
      (\<lambda>rq. Response 200 ''{...}'') (Some ''key'') (IdList [IntId 1234])
    = ([], Returned (RBody (JObj [(''bustime-response'',
          JObj [(''vehicle'', JArr [JObj [(''vid'', JStr ''1234''), (''rt'', JStr ''151'')]])])])))
   \<and> (RBody (JObj [(''bustime-response'',
          JObj [(''vehicle'', JArr [JObj [(''vid'', JStr ''1234''), (''rt'', JStr ''151'')]])])])
        = RNone
      \<or> (\<exists>status body response.
          Response 200 ''{...}'' = Response status body
        \<and> Inr (JObj [(''bustime-response'',
            JObj [(''vehicle'', JArr [JObj [(''vid'', JStr ''1234''), (''rt'', JStr ''151'')]])])])
            = (Inr response :: exn + json)
        \<and> RBody (JObj [(''bustime-response'',
            JObj [(''vehicle'', JArr [JObj [(''vid'', JStr ''1234''), (''rt'', JStr ''151'')]])])])
            = RBody response))"
proof -
  let ?J = "JObj [(''bustime-response'',
      JObj [(''vehicle'', JArr [JObj [(''vid'', JStr ''1234''), (''rt'', JStr ''151'')]])])]"
  let ?P = "\<lambda>body :: string. (Inr ?J :: exn + json)"
  let ?N = "\<lambda>rq :: request. Response 200 ''{...}''"
  have e: "get_bus_vehicles ?P ?N (Some ''key'') (IdList [IntId 1234]) = ([], Returned (RBody ?J))"
    by (simp add: get_bus_vehicles_def requests_get_def raise_for_status_def)
  note th = each_function_returns_its_kind [where response_json = ?P and net = ?N
        and api_key = "Some ''key''" and vehicle_ids = "IdList [IntId 1234]"]
  note v = th [THEN conjunct2, THEN conjunct2, THEN conjunct2, rule_format, OF e]
  from e v show ?thesis by (rule conjI)
qed

subsection \<open>The vehicle IDs\<close>














subsection \<open>Values\<close>

text \<open>A list of dicts goes through the record branch of the constructor; a column that
  holds a str is left as it is by the conversion of object columns.\<close>

lemma pd_DataFrame_dicts:
  assumes "list_all isinstance_dict data" and "data \<noteq> []"
  shows "pd_DataFrame ver data =
    Inr (Frame (fast_unique [] (concat (map keys data)))
          (map (\<lambda>k. maybe_convert_objects (map (cell_of k) data))
               (fast_unique [] (concat (map keys data))))
          (length data))"
proof -
  from assms obtain d rest where "data = XDict d # rest"
    by (cases data; cases "hd data") auto
  with assms(1) show ?thesis by (simp add: pd_DataFrame_def Let_def)
qed

lemma maybe_convert_objects_object:
  assumes "c \<in> set cs" and "c \<noteq> NaN" and "c \<noteq> Obj XNone"
  shows "maybe_convert_objects cs = cs"
  using assms by (auto simp: maybe_convert_objects_def floats_column_def list_all_iff)

lemma cell_of_nth:
  assumes "i < length data" and "map_of (items (data ! i)) k = Some v"
  shows "cell_of k (data ! i) = Obj v"
  using assms by (cases "data ! i") auto

lemma key_in_names:
  assumes "i < length data" and "map_of (items (data ! i)) k = Some v"
  shows "k \<in> set (fast_unique [] (concat (map keys data)))"
proof -
  from assms(2) have "k \<in> set (keys (data ! i))"
    by (cases "data ! i") (auto dest: map_of_SomeD intro: rev_image_eqI)
  with assms(1) show ?thesis by (auto simp: set_fast_unique)
qed

lemma map_of_concat_lookup:
  "map_of (concat (map (\<lambda>k. case m k of Some v \<Rightarrow> [(k, v)] | None \<Rightarrow> []) ks)) =
     (\<lambda>k. if k \<in> set ks then m k else None)"
proof (induction ks)
  case Nil
  then show ?case by simp
next
  case (Cons a ks)
  then show ?case by (cases "m a") (auto simp: fun_eq_iff)
qed

text \<open>
  C8. No value is coerced: when the records of an envelope without \<^verbatim>\<open>error\<close> are dicts and
  record \<open>i\<close> has the string \<open>s\<close> under the field \<open>k\<close>, a table is returned, and in the
  column of \<open>k\<close> (labelled with the stripped \<open>k\<close>) the cell of row \<open>i\<close> is the string
  \<open>s\<close> itself.
\<close>

theorem string_values_pass_through:
  assumes "''error'' \<notin> set (map fst env)" and "map_of env record_key = Some v"
    and "list_all isinstance_dict (wrap_list v)" and "i < length (wrap_list v)"
    and "map_of (items (wrap_list v ! i)) k = Some (XStr s)"
  shows "\<exists>columns cols n j.
      normalize ver record_key (doc env) = Inr ([], RXmlFrame (Frame columns cols n))
    \<and> j < length columns \<and> fast_unique [] (concat (map keys (wrap_list v))) ! j = k
    \<and> columns ! j = py_strip k \<and> cols ! j ! i = Obj (XStr s)"
proof -
  let ?recs = "wrap_list v"
  let ?names = "fast_unique [] (concat (map keys ?recs))"
  let ?cols = "map (\<lambda>k. maybe_convert_objects (map (cell_of k) ?recs)) ?names"
  from assms(4) have ne: "?recs \<noteq> []" by auto
  have n: "normalize ver record_key (doc env) =
      Inr ([], RXmlFrame (Frame (map py_strip ?names) ?cols (length ?recs)))"
    using assms(2) pd_DataFrame_dicts [OF assms(3) ne, of ver]
    by (simp add: normalize_data [OF assms(1)] envelope_records_doc)
  from key_in_names [OF assms(4,5)] obtain j where j: "j < length ?names" "?names ! j = k"
    by (auto simp: in_set_conv_nth)
  have c: "cell_of k (?recs ! i) = Obj (XStr s)" by (rule cell_of_nth [OF assms(4,5)])
  then have "Obj (XStr s) \<in> set (map (cell_of k) ?recs)"
    using assms(4) by (metis length_map nth_map nth_mem)
  then have "maybe_convert_objects (map (cell_of k) ?recs) = map (cell_of k) ?recs"
    by (rule maybe_convert_objects_object) simp_all
  with j c assms(4) have "?cols ! j ! i = Obj (XStr s)" by simp
  with n j show ?thesis by (intro exI [of _ "map py_strip ?names"] exI [of _ ?cols] exI [of _ "length ?recs"] exI [of _ j]) simp
qed

text \<open>Two routes, the second without a name; the value \<^verbatim>\<open>"151"\<close> stays a string.\<close>

theorem string_values_pass_through_witness:
  "\<exists>columns cols n j.
      normalize From_2_0 ''route''
        (doc [(''route'', XList [XDict [(''rt'', XStr ''151''), (''rtnm'', XStr ''Sheridan'')],
                                 XDict [(''rt'', XStr ''X9'')]])])
        = Inr ([], RXmlFrame (Frame columns cols n))
    \<and> j < length columns
    \<and> fast_unique [] (concat (map keys (wrap_list
          (XList [XDict [(''rt'', XStr ''151''), (''rtnm'', XStr ''Sheridan'')],
                  XDict [(''rt'', XStr ''X9'')]])))) ! j = ''rt''
    \<and> columns ! j = py_strip ''rt'' \<and> cols ! j ! 0 = Obj (XStr ''151'')"
proof -
  let ?v = "XList [XDict [(''rt'', XStr ''151''), (''rtnm'', XStr ''Sheridan'')],
                   XDict [(''rt'', XStr ''X9'')]]"
  have 1: "''error'' \<notin> set (map fst [(''route'', ?v)])" by simp
  have 2: "map_of [(''route'', ?v)] ''route'' = Some ?v" by simp
  have 3: "list_all isinstance_dict (wrap_list ?v)" by (simp add: wrap_list_def)
  have 4: "0 < length (wrap_list ?v)" by (simp add: wrap_list_def)
  have 5: "map_of (items (wrap_list ?v ! 0)) ''rt'' = Some (XStr ''151'')"
    by (simp add: wrap_list_def)
  show ?thesis by (rule string_values_pass_through [OF 1 2 3 4 5])
qed

subsection \<open>Rows\<close>

lemma zip_map_same: "zip xs (map f xs) = map (\<lambda>x. (x, f x)) xs"
  by (induction xs) auto

lemma row_of_cells:
  assumes "i < length data"
  shows "row names (map (\<lambda>k. map (cell_of k) data) names) i =
    concat (map (\<lambda>k. case cell_of k (data ! i) of Obj v \<Rightarrow> [(k, v)] | NaN \<Rightarrow> []) names)"
  using assms by (simp add: row_def zip_map_same comp_def)

lemma map_of_row:
  assumes "i < length data" and "set (keys (data ! i)) \<subseteq> set names"
  shows "map_of (row names (map (\<lambda>k. map (cell_of k) data) names) i) = map_of (items (data ! i))"
proof (cases "data ! i")
  case (XDict d)
  have "(\<lambda>k. case cell_of k (XDict d) of Obj v \<Rightarrow> [(k, v)] | NaN \<Rightarrow> []) =
      (\<lambda>k. case map_of d k of Some v \<Rightarrow> [(k, v)] | None \<Rightarrow> [])"
    by (auto simp: fun_eq_iff split: option.splits)
  then have "map_of (row names (map (\<lambda>k. map (cell_of k) data) names) i) =
      (\<lambda>k. if k \<in> set names then map_of d k else None)"
    using XDict by (simp add: row_of_cells [OF assms(1)] map_of_concat_lookup)
  moreover have "map_of d k = None" if "k \<notin> set names" for k
    using that assms(2) XDict by (auto simp: map_of_eq_None_iff)
  ultimately show ?thesis using XDict by (auto simp: fun_eq_iff)
qed (simp_all add: row_of_cells [OF assms(1)])

lemma well_formed_dict: "well_formed r \<Longrightarrow> isinstance_dict r"
  by (cases r) auto

lemma well_formed_key:
  assumes "well_formed r" and "k \<in> set (keys r)"
  shows "trimmed k \<and> (\<exists>s. cell_of k r = Obj (XStr s))"
proof -
  from assms obtain d where r: "r = XDict d" by (cases r) auto
  with assms have t: "trimmed k" by (auto simp: list_all_iff)
  from assms(2) r obtain v where v: "map_of d k = Some v"
    by (auto dest: weak_map_of_SomeI)
  then have "(k, v) \<in> set d" by (rule map_of_SomeD)
  with assms(1) r have "isinstance_str v" by (auto simp: list_all_iff)
  then obtain s where "v = XStr s" by (cases v) auto
  with v r t show ?thesis by simp
qed

text \<open>Whatever the envelope, a table that is returned has one row per record, and every
  column has one cell per row.\<close>

lemma row_count_is_record_count:
  assumes "normalize ver record_key xml_dict = Inr (out, RXmlFrame (Frame columns cols n))"
  shows "n = length (envelope_records record_key xml_dict) \<and> length cols = length columns
    \<and> list_all (\<lambda>col. length col = n) cols"
proof -
  from normalize_table [OF assms] obtain df where
    df: "pd_DataFrame ver (envelope_records record_key xml_dict) = Inr df"
    and st: "strip_columns df = Inr (Frame columns cols n)" by blast
  from st obtain columns0 where df0: "df = Frame columns0 cols n"
    and c: "columns = map py_strip columns0" by (cases df) auto
  from pd_DataFrame_Frame [OF df [unfolded df0]] c show ?thesis
    by (simp add: list_all_iff maybe_convert_objects_length)
qed

text \<open>
  With at least one record, all well formed (distinct trimmed field names, string
  values), a table is returned with one row per record, every column has one cell per
  row, and row \<open>i\<close> read back as a record is record \<open>i\<close>.
\<close>

lemma well_formed_records_round_trip:
  assumes "''error'' \<notin> set (map fst env)" and "map_of env record_key = Some v"
    and "wrap_list v \<noteq> []" and "list_all well_formed (wrap_list v)"
  shows "\<exists>columns cols.
      normalize ver record_key (doc env)
        = Inr ([], RXmlFrame (Frame columns cols (length (wrap_list v))))
    \<and> length cols = length columns
    \<and> list_all (\<lambda>col. length col = length (wrap_list v)) cols
    \<and> (\<forall>i < length (wrap_list v).
          map_of (row columns cols i) = map_of (items (wrap_list v ! i)))"
proof -
  let ?recs = "wrap_list v"
  let ?names = "fast_unique [] (concat (map keys ?recs))"
  let ?cols = "map (\<lambda>k. map (cell_of k) ?recs) ?names"
  have dicts: "list_all isinstance_dict ?recs"
    using assms(4) by (auto simp: list_all_iff well_formed_dict)
  have key: "trimmed k \<and> maybe_convert_objects (map (cell_of k) ?recs) = map (cell_of k) ?recs"
    if "k \<in> set ?names" for k
  proof -
    from that obtain r where r: "r \<in> set ?recs" "k \<in> set (keys r)"
      by (auto simp: set_fast_unique)
    with assms(4) have "well_formed r" by (simp add: list_all_iff)
    from well_formed_key [OF this r(2)] obtain s where
      t: "trimmed k" and c: "cell_of k r = Obj (XStr s)" by blast
    from c r(1) have "Obj (XStr s) \<in> set (map (cell_of k) ?recs)" by force
    then have "maybe_convert_objects (map (cell_of k) ?recs) = map (cell_of k) ?recs"
      by (rule maybe_convert_objects_object) simp_all
    with t show ?thesis by simp
  qed
  have names: "map py_strip ?names = ?names"
    by (rule map_idI) (simp add: key py_strip_trimmed)
  have cols: "map (\<lambda>k. maybe_convert_objects (map (cell_of k) ?recs)) ?names = ?cols"
    by (rule map_cong) (simp_all add: key)
  have n: "normalize ver record_key (doc env) =
      Inr ([], RXmlFrame (Frame ?names ?cols (length ?recs)))"
    using assms(2) pd_DataFrame_dicts [OF dicts assms(3), of ver]
    by (simp add: normalize_data [OF assms(1)] envelope_records_doc names cols)
  have rows: "map_of (row ?names ?cols i) = map_of (items (?recs ! i))" if "i < length ?recs" for i
  proof (rule map_of_row [OF that])
    show "set (keys (?recs ! i)) \<subseteq> set ?names"
      using nth_mem [OF that] by (auto simp: set_fast_unique)
  qed
  have "list_all (\<lambda>col. length col = length ?recs) ?cols" by (simp add: list_all_iff)
  with n rows show ?thesis
    by (intro exI [of _ ?names] exI [of _ ?cols]) simp
qed

text \<open>The same for the two shapes of the value under the record key: a list of \<open>N \<ge> 1\<close>
  records gives \<open>N\<close> rows, one record that is not in a list gives one row.\<close>

lemma records_list_round_trip:
  assumes "''error'' \<notin> set (map fst env)" and "map_of env record_key = Some (XList recs)"
    and "recs \<noteq> []" and "list_all well_formed recs"
  shows "\<exists>columns cols.
      normalize ver record_key (doc env) = Inr ([], RXmlFrame (Frame columns cols (length recs)))
    \<and> length cols = length columns
    \<and> list_all (\<lambda>col. length col = length recs) cols
    \<and> (\<forall>i < length recs. map_of (row columns cols i) = map_of (items (recs ! i)))"
  using well_formed_records_round_trip [of env record_key "XList recs" ver] assms
  by (simp add: wrap_list_def)

lemma single_record_round_trip:
  assumes "''error'' \<notin> set (map fst env)" and "map_of env record_key = Some (XDict d)"
    and "well_formed (XDict d)"
  shows "\<exists>columns cols.
      normalize ver record_key (doc env) = Inr ([], RXmlFrame (Frame columns cols 1))
    \<and> length cols = length columns
    \<and> list_all (\<lambda>col. length col = 1) cols
    \<and> map_of (row columns cols 0) = map_of d"
  using well_formed_records_round_trip [of env record_key "XDict d" ver] assms
  by (simp add: wrap_list_def)

text \<open>Two routes whose fields come in different orders.\<close>

lemma round_trip_example:
  "normalize From_2_0 ''route''
     (doc [(''route'', XList [XDict [(''rt'', XStr ''151''), (''rtnm'', XStr ''Sheridan'')],
                              XDict [(''rtnm'', XStr ''Ashland Express''), (''rt'', XStr ''X9'')]])])
   = Inr ([], RXmlFrame (Frame [''rt'', ''rtnm'']
        [[Obj (XStr ''151''), Obj (XStr ''X9'')],
         [Obj (XStr ''Sheridan''), Obj (XStr ''Ashland Express'')]] 2))"
  by code_simp

subsection \<open>No record\<close>

text \<open>
  C3. The table is to have as many rows as the envelope has records, with the values
  unchanged, for every number of records. It has for one record and more, and a table
  that is returned always has (the lemmas above). With no record it fails under pandas
  2.0 or later: the envelope below has no \<^verbatim>\<open>error\<close> and no \<^verbatim>\<open>stop\<close>, so it holds zero
  records, and \<^verbatim>\<open>get_bus_stops_with_key\<close> returns \<^verbatim>\<open>None\<close> after a processing error
  instead of a table with zero rows. Line 160 is where it raises, as line 105 does for
  the routes.
\<close>

theorem no_record_no_table_pandas_2:
  "envelope_records ''stop'' (doc [(''tm'', XStr ''20250101 12:00'')]) = []
   \<and> get_bus_stops_with_key From_2_0 (\<lambda>body. Inr (doc [(''tm'', XStr ''20250101 12:00'')]))
        (\<lambda>rq. Response 200 ''<bustime-response><tm>20250101 12:00</tm></bustime-response>'')
        (Some ''key'') (Some ''151'') (Some ''Northbound'')
      = ([Error_processing_response AttributeError], Returned RNone)"
  by (simp add: get_bus_stops_with_key_def xml_try_def requests_get_def raise_for_status_def
      absent_record_key envelope_records_doc)

end
